theory Spec2Isabelle
  imports Complex_Main
begin

section \<open>Pixel values\<close>

text \<open>
  The band grids are numpy arrays of dtype float32. A pixel is a finite number, one of
  the two infinities, or NaN. The special values follow IEEE 754 as numpy applies them;
  the rounding of a finite result to float32 (which may also overflow to an infinity or
  underflow to zero) is the parameter \<open>rnd\<close> of every operation, so that what is
  proved holds for each rounding. Zero carries no sign: it is taken as \<open>+0.0\<close>.
\<close>

datatype fval = Fin real | PInf | NInf | NaN

type_synonym rounding = "real \<Rightarrow> fval"

definition is_nan :: "fval \<Rightarrow> bool" where
  "is_nan v = (case v of NaN \<Rightarrow> True | _ \<Rightarrow> False)"

fun fneg :: "fval \<Rightarrow> fval" where
  "fneg (Fin x) = Fin (- x)"
| "fneg PInf = NInf"
| "fneg NInf = PInf"
| "fneg NaN = NaN"

fun fadd :: "rounding \<Rightarrow> fval \<Rightarrow> fval \<Rightarrow> fval" where
  "fadd rnd NaN b = NaN"
| "fadd rnd (Fin x) NaN = NaN"
| "fadd rnd PInf NaN = NaN"
| "fadd rnd NInf NaN = NaN"
| "fadd rnd PInf NInf = NaN"
| "fadd rnd NInf PInf = NaN"
| "fadd rnd PInf PInf = PInf"
| "fadd rnd PInf (Fin y) = PInf"
| "fadd rnd (Fin x) PInf = PInf"
| "fadd rnd NInf NInf = NInf"
| "fadd rnd NInf (Fin y) = NInf"
| "fadd rnd (Fin x) NInf = NInf"
| "fadd rnd (Fin x) (Fin y) = rnd (x + y)"

definition fsub :: "rounding \<Rightarrow> fval \<Rightarrow> fval \<Rightarrow> fval" where
  "fsub rnd a b = fadd rnd a (fneg b)"

definition signed_inf :: "bool \<Rightarrow> fval" where
  "signed_inf negative = (if negative then NInf else PInf)"

fun fmul :: "rounding \<Rightarrow> fval \<Rightarrow> fval \<Rightarrow> fval" where
  "fmul rnd NaN b = NaN"
| "fmul rnd (Fin x) NaN = NaN"
| "fmul rnd PInf NaN = NaN"
| "fmul rnd NInf NaN = NaN"
| "fmul rnd PInf PInf = PInf"
| "fmul rnd PInf NInf = NInf"
| "fmul rnd NInf PInf = NInf"
| "fmul rnd NInf NInf = PInf"
| "fmul rnd PInf (Fin y) = (if y = 0 then NaN else signed_inf (y < 0))"
| "fmul rnd NInf (Fin y) = (if y = 0 then NaN else signed_inf (0 < y))"
| "fmul rnd (Fin x) PInf = (if x = 0 then NaN else signed_inf (x < 0))"
| "fmul rnd (Fin x) NInf = (if x = 0 then NaN else signed_inf (0 < x))"
| "fmul rnd (Fin x) (Fin y) = rnd (x * y)"

text \<open>
  Division: a nonzero number over zero is an infinity (numpy's \<open>divide\<close> warning),
  zero over zero and infinity over infinity are NaN (the \<open>invalid\<close> warning).
\<close>

fun fdiv :: "rounding \<Rightarrow> fval \<Rightarrow> fval \<Rightarrow> fval" where
  "fdiv rnd NaN b = NaN"
| "fdiv rnd (Fin x) NaN = NaN"
| "fdiv rnd PInf NaN = NaN"
| "fdiv rnd NInf NaN = NaN"
| "fdiv rnd PInf PInf = NaN"
| "fdiv rnd PInf NInf = NaN"
| "fdiv rnd NInf PInf = NaN"
| "fdiv rnd NInf NInf = NaN"
| "fdiv rnd PInf (Fin y) = signed_inf (y < 0)"
| "fdiv rnd NInf (Fin y) = signed_inf (0 \<le> y)"
| "fdiv rnd (Fin x) PInf = Fin 0"
| "fdiv rnd (Fin x) NInf = Fin 0"
| "fdiv rnd (Fin x) (Fin y) =
     (if y = 0 then (if x = 0 then NaN else signed_inf (x < 0)) else rnd (x / y))"

section \<open>Grids and Python values\<close>

text \<open>
  A grid is a two-dimensional array, kept as its list of rows. The rasters read from
  band files have at least one row and one column, and rows of one length.
\<close>

type_synonym grid = "fval list list"

definition nrows :: "grid \<Rightarrow> nat" where
  "nrows g = length g"

definition ncols :: "grid \<Rightarrow> nat" where
  "ncols g = (case g of [] \<Rightarrow> 0 | r # _ \<Rightarrow> length r)"

definition shape :: "grid \<Rightarrow> nat \<times> nat" where
  "shape g = (nrows g, ncols g)"

datatype error = TypeError | ValueError | KeyError | OSError

text \<open>
  A value held in the \<open>bands\<close> dictionary: an array, or \<open>None\<close> where
  \<open>load_band\<close> failed.
\<close>

datatype pyval = PyNone | Arr grid

definition bind_err :: "error + 'a \<Rightarrow> ('a \<Rightarrow> error + 'b) \<Rightarrow> error + 'b" where
  "bind_err r f = (case r of Inl e \<Rightarrow> Inl e | Inr v \<Rightarrow> f v)"

text \<open>
  numpy broadcasting of two dimensions: equal sizes, or one of them 1 (stretched to the
  other); anything else raises ValueError.
\<close>

definition broadcast_dim :: "nat \<Rightarrow> nat \<Rightarrow> nat option" where
  "broadcast_dim m n =
     (if m = n then Some m else if m = 1 then Some n else if n = 1 then Some m else None)"

definition cell :: "grid \<Rightarrow> nat \<Rightarrow> nat \<Rightarrow> fval" where
  "cell g i j = g ! (if nrows g = 1 then 0 else i) ! (if ncols g = 1 then 0 else j)"

definition elementwise :: "(fval \<Rightarrow> fval \<Rightarrow> fval) \<Rightarrow> grid \<Rightarrow> grid \<Rightarrow> error + grid" where
  "elementwise f a b =
     (case broadcast_dim (nrows a) (nrows b) of
        None \<Rightarrow> Inl ValueError
      | Some r \<Rightarrow>
          (case broadcast_dim (ncols a) (ncols b) of
             None \<Rightarrow> Inl ValueError
           | Some c \<Rightarrow>
               Inr (map (\<lambda>i. map (\<lambda>j. f (cell a i j) (cell b i j)) [0..<c]) [0..<r])))"

text \<open>
  The binary operators on Python values. An operand that is \<open>None\<close> raises
  TypeError; two arrays are combined elementwise.
\<close>

fun arr_binop :: "(fval \<Rightarrow> fval \<Rightarrow> fval) \<Rightarrow> pyval \<Rightarrow> pyval \<Rightarrow> error + pyval" where
  "arr_binop f (Arr a) (Arr b) = bind_err (elementwise f a b) (\<lambda>g. Inr (Arr g))"
| "arr_binop f PyNone b = Inl TypeError"
| "arr_binop f (Arr a) PyNone = Inl TypeError"

text \<open>An array combined with a Python number: the number meets every pixel.\<close>

fun arr_scalar :: "(fval \<Rightarrow> fval \<Rightarrow> fval) \<Rightarrow> pyval \<Rightarrow> real \<Rightarrow> error + pyval" where
  "arr_scalar f (Arr a) s = Inr (Arr (map (map (\<lambda>v. f v (Fin s))) a))"
| "arr_scalar f PyNone s = Inl TypeError"

fun scalar_arr :: "(fval \<Rightarrow> fval \<Rightarrow> fval) \<Rightarrow> real \<Rightarrow> pyval \<Rightarrow> error + pyval" where
  "scalar_arr f s (Arr a) = Inr (Arr (map (map (\<lambda>v. f (Fin s) v)) a))"
| "scalar_arr f s PyNone = Inl TypeError"

section \<open>The index formulas (indices/index_calculations.py)\<close>

text \<open>
  \<open>safe_divide\<close>: the elementwise quotient, computed with the divide and invalid
  warnings silenced; then every NaN of the result is overwritten with 0.
\<close>

definition nan_to_zero :: "fval \<Rightarrow> fval" where
  "nan_to_zero v = (if is_nan v then Fin 0 else v)"

definition safe_divide :: "rounding \<Rightarrow> pyval \<Rightarrow> pyval \<Rightarrow> error + pyval" where
  "safe_divide rnd numerator denominator =
     bind_err (arr_binop (fdiv rnd) numerator denominator) (\<lambda>result.
       case result of
         Arr g \<Rightarrow> Inr (Arr (map (map nan_to_zero) g))
       | PyNone \<Rightarrow> Inl TypeError)"

definition calculate_ndvi :: "rounding \<Rightarrow> pyval \<Rightarrow> pyval \<Rightarrow> error + pyval" where
  "calculate_ndvi rnd nir red =
     bind_err (arr_binop (fsub rnd) nir red) (\<lambda>num.
     bind_err (arr_binop (fadd rnd) nir red) (\<lambda>den.
       safe_divide rnd num den))"

definition calculate_savi :: "rounding \<Rightarrow> pyval \<Rightarrow> pyval \<Rightarrow> real \<Rightarrow> error + pyval" where
  "calculate_savi rnd nir red L =
     bind_err (arr_binop (fsub rnd) nir red) (\<lambda>num.
     bind_err (arr_binop (fadd rnd) nir red) (\<lambda>s.
     bind_err (arr_scalar (fadd rnd) s L) (\<lambda>den.
     bind_err (safe_divide rnd num den) (\<lambda>q.
       arr_scalar (fmul rnd) q (1 + L)))))"

definition calculate_evi ::
  "rounding \<Rightarrow> pyval \<Rightarrow> pyval \<Rightarrow> pyval \<Rightarrow> real \<Rightarrow> real \<Rightarrow> real \<Rightarrow> real \<Rightarrow> error + pyval" where
  "calculate_evi rnd nir red blue G C1 C2 L =
     bind_err (arr_binop (fsub rnd) nir red) (\<lambda>num.
     bind_err (scalar_arr (fmul rnd) C1 red) (\<lambda>c1_red.
     bind_err (arr_binop (fadd rnd) nir c1_red) (\<lambda>s.
     bind_err (scalar_arr (fmul rnd) C2 blue) (\<lambda>c2_blue.
     bind_err (arr_binop (fsub rnd) s c2_blue) (\<lambda>d.
     bind_err (arr_scalar (fadd rnd) d L) (\<lambda>den.
     bind_err (safe_divide rnd num den) (\<lambda>q.
       scalar_arr (fmul rnd) G q)))))))"

definition calculate_arvi :: "rounding \<Rightarrow> pyval \<Rightarrow> pyval \<Rightarrow> pyval \<Rightarrow> error + pyval" where
  "calculate_arvi rnd nir red blue =
     bind_err (arr_binop (fsub rnd) red blue) (\<lambda>diff.
     bind_err (scalar_arr (fmul rnd) 2 diff) (\<lambda>twice.
     bind_err (arr_binop (fsub rnd) red twice) (\<lambda>red_corr.
     bind_err (arr_binop (fsub rnd) nir red_corr) (\<lambda>num.
     bind_err (arr_binop (fadd rnd) nir red_corr) (\<lambda>den.
       safe_divide rnd num den)))))"

definition calculate_nbr :: "rounding \<Rightarrow> pyval \<Rightarrow> pyval \<Rightarrow> error + pyval" where
  "calculate_nbr rnd nir swir2 =
     bind_err (arr_binop (fsub rnd) nir swir2) (\<lambda>num.
     bind_err (arr_binop (fadd rnd) nir swir2) (\<lambda>den.
       safe_divide rnd num den))"

definition calculate_nbwi :: "rounding \<Rightarrow> pyval \<Rightarrow> pyval \<Rightarrow> error + pyval" where
  "calculate_nbwi rnd green nir =
     bind_err (arr_binop (fsub rnd) green nir) (\<lambda>num.
     bind_err (arr_binop (fadd rnd) green nir) (\<lambda>den.
       safe_divide rnd num den))"

definition calculate_ndbi :: "rounding \<Rightarrow> pyval \<Rightarrow> pyval \<Rightarrow> error + pyval" where
  "calculate_ndbi rnd swir1 nir =
     bind_err (arr_binop (fsub rnd) swir1 nir) (\<lambda>num.
     bind_err (arr_binop (fadd rnd) swir1 nir) (\<lambda>den.
       safe_divide rnd num den))"

definition calculate_gci :: "rounding \<Rightarrow> pyval \<Rightarrow> pyval \<Rightarrow> error + pyval" where
  "calculate_gci rnd nir green =
     bind_err (safe_divide rnd nir green) (\<lambda>q.
       arr_scalar (fsub rnd) q 1)"

section \<open>The band store and the output files (process_all_scenes.py)\<close>

text \<open>
  rasterio and the file system are outside the program. What they answer is the
  environment: what lies at each input path, whether a directory can be made and whether
  a raster or the summary can be written. The wall-clock measurement (\<open>time_sec\<close>)
  and the log are left out.
\<close>

record profile =
  dtype :: string
  count :: nat
  width :: nat
  height :: nat
  georef :: string

datatype band_file = Missing | Unreadable | Readable grid profile

record env =
  float_rnd :: rounding
  input_files :: "string \<Rightarrow> band_file"
  INPUT_ROOT :: string
  OUTPUT_ROOT :: string
  timestamp :: string
  makedirs_ok :: "string \<Rightarrow> bool"
  raster_write_ok :: "string \<Rightarrow> profile \<Rightarrow> grid \<Rightarrow> bool"
  csv_open_ok :: "string \<Rightarrow> bool"

record scene_result =
  scene :: string
  entries :: "string \<rightharpoonup> bool"

text \<open>
  The output side of the file system: whether the directory \<open>OUTPUT_ROOT\<close> exists,
  the rasters written so far and the summaries written so far.
\<close>

record out_fs =
  root_exists :: bool
  rasters :: "(string \<times> profile \<times> grid) list"
  summaries :: "(string \<times> scene_result list) list"

text \<open>\<open>os.path.join\<close> and \<open>os.path.basename\<close> on POSIX paths.\<close>

definition path_join :: "string \<Rightarrow> string \<Rightarrow> string" where
  "path_join a b =
     (if b \<noteq> [] \<and> hd b = CHR ''/'' then b
      else if a = [] \<or> last a = CHR ''/'' then a @ b
      else a @ ''/'' @ b)"

definition basename :: "string \<Rightarrow> string" where
  "basename p = rev (takeWhile (\<lambda>c. c \<noteq> CHR ''/'') (rev p))"

definition band_files :: "(string \<times> string) list" where
  "band_files =
     [(''B2'', ''B2.tif''), (''B3'', ''B3.tif''), (''B4'', ''B4.tif''),
      (''B5'', ''B5.tif''), (''B6'', ''B6.tif''), (''B7'', ''B7.tif'')]"

definition path_exists :: "env \<Rightarrow> string \<Rightarrow> bool" where
  "path_exists e path = (case input_files e path of Missing \<Rightarrow> False | _ \<Rightarrow> True)"

text \<open>\<open>load_band\<close>: the array and the profile, or \<open>(None, None)\<close> on any failure.\<close>

definition load_band :: "env \<Rightarrow> string \<Rightarrow> pyval \<times> profile option" where
  "load_band e path =
     (case input_files e path of
        Readable g p \<Rightarrow> (Arr g, Some p)
      | _ \<Rightarrow> (PyNone, None))"

text \<open>
  The load loop of \<open>process_scene\<close>: for each band file that exists, the tuple
  assignment binds the band key and overwrites \<open>profile\<close>, whatever was loaded.
\<close>

fun load_bands ::
  "env \<Rightarrow> string \<Rightarrow> (string \<times> string) list \<Rightarrow>
   (string \<rightharpoonup> pyval) \<times> profile option \<Rightarrow> (string \<rightharpoonup> pyval) \<times> profile option" where
  "load_bands e scene_path [] acc = acc"
| "load_bands e scene_path ((band_key, filename) # rest) (bands, prof) =
     (let path = path_join scene_path filename in
      if path_exists e path
      then (case load_band e path of
              (arr, p) \<Rightarrow> load_bands e scene_path rest (bands(band_key \<mapsto> arr), p))
      else load_bands e scene_path rest (bands, prof))"

text \<open>\<open>profile.update(dtype=rasterio.float32, count=1)\<close>.\<close>

definition profile_update :: "profile \<Rightarrow> profile" where
  "profile_update p = p\<lparr>dtype := ''float32'', count := 1\<rparr>"

text \<open>
  \<open>save_index\<close>: every exception inside is caught and turns into \<open>False\<close>. The
  directory is made first (with its ancestors, \<open>OUTPUT_ROOT\<close> among them, as
  \<open>output_dir\<close> is always \<open>OUTPUT_ROOT/scene_name\<close>); then the profile dictionary is
  updated in place, which raises when it is \<open>None\<close>; then the raster is written.
  The updated profile is returned, as the caller's variable is the same object.
\<close>

definition save_index ::
  "env \<Rightarrow> out_fs \<Rightarrow> pyval \<Rightarrow> string \<Rightarrow> profile option \<Rightarrow> string \<Rightarrow>
   bool \<times> profile option \<times> out_fs" where
  "save_index e fs0 index_array name prof output_dir =
     (if \<not> makedirs_ok e output_dir then (False, prof, fs0)
      else
        (let fs1 = fs0\<lparr>root_exists := True\<rparr> in
         case prof of
           None \<Rightarrow> (False, None, fs1)
         | Some p \<Rightarrow>
             (let p' = profile_update p;
                  out_path = path_join output_dir (name @ ''.tif'')
              in case index_array of
                   PyNone \<Rightarrow> (False, Some p', fs1)
                 | Arr g \<Rightarrow>
                     if raster_write_ok e out_path p' g
                     then (True, Some p', fs1\<lparr>rasters := rasters fs1 @ [(out_path, p', g)]\<rparr>)
                     else (False, Some p', fs1))))"

section \<open>Processing one scene\<close>

text \<open>
  The state of the \<open>try\<close> block of \<open>process_scene\<close>: the index entries of
  \<open>results\<close>, the \<open>profile\<close> variable, the output files, and the exception that
  ended the block, if any. \<open>calls\<close> is a trace added for the statements below: which
  index functions were called and what \<open>save_index\<close> was called with.
\<close>

datatype call = Compute string | SaveIndex string pyval "profile option"

record pstate =
  results :: "string \<rightharpoonup> bool"
  profile_var :: "profile option"
  files_out :: out_fs
  calls :: "call list"
  raised :: "error option"

definition getitem :: "(string \<rightharpoonup> pyval) \<Rightarrow> string \<Rightarrow> error + pyval" where
  "getitem bands k = (case bands k of None \<Rightarrow> Inl KeyError | Some v \<Rightarrow> Inr v)"

definition issubset :: "string list \<Rightarrow> (string \<rightharpoonup> pyval) \<Rightarrow> bool" where
  "issubset ks bands = list_all (\<lambda>k. bands k \<noteq> None) ks"

text \<open>
  The eight \<open>if\<close> statements of the \<open>try\<close> block, in their order: the band keys
  tested, the index name, and the call of the index function on the bands looked up.
\<close>

definition index_table ::
  "rounding \<Rightarrow> (string \<rightharpoonup> pyval) \<Rightarrow> (string list \<times> string \<times> (error + pyval)) list" where
  "index_table rnd bands =
     [([''B4'', ''B5''], ''NDVI'',
         bind_err (getitem bands ''B5'') (\<lambda>b5. bind_err (getitem bands ''B4'') (\<lambda>b4.
           calculate_ndvi rnd b5 b4))),
      ([''B4'', ''B5''], ''SAVI'',
         bind_err (getitem bands ''B5'') (\<lambda>b5. bind_err (getitem bands ''B4'') (\<lambda>b4.
           calculate_savi rnd b5 b4 (1 / 2)))),
      ([''B2'', ''B4'', ''B5''], ''EVI'',
         bind_err (getitem bands ''B5'') (\<lambda>b5. bind_err (getitem bands ''B4'') (\<lambda>b4.
         bind_err (getitem bands ''B2'') (\<lambda>b2.
           calculate_evi rnd b5 b4 b2 (5 / 2) 6 (15 / 2) 1)))),
      ([''B3'', ''B4'', ''B5''], ''ARVI'',
         bind_err (getitem bands ''B5'') (\<lambda>b5. bind_err (getitem bands ''B4'') (\<lambda>b4.
         bind_err (getitem bands ''B3'') (\<lambda>b3.
           calculate_arvi rnd b5 b4 b3)))),
      ([''B5'', ''B7''], ''NBR'',
         bind_err (getitem bands ''B5'') (\<lambda>b5. bind_err (getitem bands ''B7'') (\<lambda>b7.
           calculate_nbr rnd b5 b7))),
      ([''B3'', ''B5''], ''NBWI'',
         bind_err (getitem bands ''B3'') (\<lambda>b3. bind_err (getitem bands ''B5'') (\<lambda>b5.
           calculate_nbwi rnd b3 b5))),
      ([''B5'', ''B6''], ''NDBI'',
         bind_err (getitem bands ''B6'') (\<lambda>b6. bind_err (getitem bands ''B5'') (\<lambda>b5.
           calculate_ndbi rnd b6 b5))),
      ([''B3'', ''B7''], ''GCI'',
         bind_err (getitem bands ''B7'') (\<lambda>b7. bind_err (getitem bands ''B3'') (\<lambda>b3.
           calculate_gci rnd b7 b3)))]"

text \<open>
  One \<open>if\<close> statement. After an exception nothing more of the block runs. Otherwise,
  when the bands are there and the index is selected, the index function is called; if
  it raises, the block ends, else \<open>save_index\<close> is called and its answer stored.
\<close>

definition index_step ::
  "env \<Rightarrow> (string \<rightharpoonup> pyval) \<Rightarrow> string list \<Rightarrow> string \<Rightarrow>
   string list \<times> string \<times> (error + pyval) \<Rightarrow> pstate \<Rightarrow> pstate" where
  "index_step e bands selected_indices output_dir entry st =
     (case entry of (required, name, computed) \<Rightarrow>
        (case raised st of
           Some err \<Rightarrow> st
         | None \<Rightarrow>
             if issubset required bands \<and> name \<in> set selected_indices
             then (case computed of
                     Inl err \<Rightarrow> st\<lparr>calls := calls st @ [Compute name], raised := Some err\<rparr>
                   | Inr arr \<Rightarrow>
                       (case save_index e (files_out st) arr name (profile_var st) output_dir of
                          (ok, p', fs') \<Rightarrow>
                            st\<lparr>results := (results st)(name \<mapsto> ok),
                               profile_var := p',
                               files_out := fs',
                               calls := calls st @
                                 [Compute name, SaveIndex name arr (profile_var st)]\<rparr>))
             else st))"

definition run_steps ::
  "env \<Rightarrow> (string \<rightharpoonup> pyval) \<Rightarrow> string list \<Rightarrow> string \<Rightarrow>
   (string list \<times> string \<times> (error + pyval)) list \<Rightarrow> pstate \<Rightarrow> pstate" where
  "run_steps e bands selected_indices output_dir steps st =
     fold (index_step e bands selected_indices output_dir) steps st"

definition loaded :: "env \<Rightarrow> string \<Rightarrow> (string \<rightharpoonup> pyval) \<times> profile option" where
  "loaded e scene_path = load_bands e scene_path band_files (Map.empty, None)"

text \<open>
  \<open>run_scene\<close> is the body of \<open>process_scene\<close> up to the end of the \<open>try\<close>
  block; \<open>process_scene\<close> returns the \<open>results\<close> dictionary.
\<close>

definition run_scene :: "env \<Rightarrow> out_fs \<Rightarrow> string \<Rightarrow> string list \<Rightarrow> pstate" where
  "run_scene e fs0 scene_path selected_indices =
     (case loaded e scene_path of
        (bands, prof) \<Rightarrow>
          run_steps e bands selected_indices
            (path_join (OUTPUT_ROOT e) (basename scene_path))
            (index_table (float_rnd e) bands)
            \<lparr>results = Map.empty, profile_var = prof, files_out = fs0,
             calls = [], raised = None\<rparr>)"

definition process_scene :: "env \<Rightarrow> out_fs \<Rightarrow> string \<Rightarrow> string list \<Rightarrow> scene_result" where
  "process_scene e fs0 scene_path selected_indices =
     \<lparr>scene = basename scene_path,
      entries = results (run_scene e fs0 scene_path selected_indices)\<rparr>"

section \<open>The batch run with one scene\<close>

text \<open>
  \<open>save_summary\<close> opens the summary file in \<open>OUTPUT_ROOT\<close>, which it does not
  create, and nothing catches what \<open>open\<close> raises.
\<close>

definition save_summary :: "env \<Rightarrow> out_fs \<Rightarrow> scene_result list \<Rightarrow> string \<Rightarrow> error + out_fs" where
  "save_summary e fs0 rows output_dir =
     (let csv_path = path_join output_dir (''summary_'' @ timestamp e @ ''.csv'') in
      if root_exists fs0 \<and> csv_open_ok e csv_path
      then Inr (fs0\<lparr>summaries := summaries fs0 @ [(csv_path, rows)]\<rparr>)
      else Inl OSError)"

text \<open>
  The module-level run when \<open>scene_folders\<close> has exactly one element: the scene is
  processed in the main thread, its result appended, and the summary saved. (The
  thread-pool branch is not modelled.)
\<close>

definition run_batch_one ::
  "env \<Rightarrow> out_fs \<Rightarrow> string \<Rightarrow> string list \<Rightarrow> error + out_fs" where
  "run_batch_one e fs0 folder selected_indices =
     (let scene_path = path_join (INPUT_ROOT e) folder;
          st = run_scene e fs0 scene_path selected_indices;
          result = process_scene e fs0 scene_path selected_indices
      in save_summary e (files_out st) [result] (OUTPUT_ROOT e))"

section \<open>Notions used in the statements\<close>


text \<open>
  The band files of a scene that exist, in the order of \<open>band_files\<close>, and the
  profile that loading the last of them returns (\<open>None\<close> when there is none, or when
  that load fails). This follows the words of the statement about the shared profile,
  to be compared with what the load loop leaves in the variable.
\<close>

definition present_files :: "env \<Rightarrow> string \<Rightarrow> (string \<times> string) list" where
  "present_files e scene_path =
     filter (\<lambda>(band_key, filename). path_exists e (path_join scene_path filename)) band_files"

definition last_profile :: "env \<Rightarrow> string \<Rightarrow> profile option" where
  "last_profile e scene_path =
     (case present_files e scene_path of
        [] \<Rightarrow> None
      | ps \<Rightarrow> snd (load_band e (path_join scene_path (snd (last ps)))))"

text \<open>
  A scene in which every band file that exists loads, and all loaded grids have the
  shape \<open>s\<close>: no index function raises on such a scene.
\<close>

definition clean_scene :: "env \<Rightarrow> string \<Rightarrow> nat \<times> nat \<Rightarrow> bool" where
  "clean_scene e scene_path s =
     list_all
       (\<lambda>(band_key, filename).
          case input_files e (path_join scene_path filename) of
            Missing \<Rightarrow> True
          | Unreadable \<Rightarrow> False
          | Readable g p \<Rightarrow> shape g = s)
       band_files"

text \<open>An index was attempted: its index function was called.\<close>

definition attempted :: "pstate \<Rightarrow> string \<Rightarrow> bool" where
  "attempted st name = (Compute name \<in> set (calls st))"

text \<open>A call returns an array of the shape \<open>s\<close>.\<close>

definition returns_shape :: "nat \<times> nat \<Rightarrow> error + pyval \<Rightarrow> bool" where
  "returns_shape s r = (\<exists>g. r = Inr (Arr g) \<and> shape g = s)"

text \<open>Every band of the dictionary is an array of the shape \<open>s\<close>.\<close>

definition clean_bands :: "nat \<times> nat \<Rightarrow> (string \<rightharpoonup> pyval) \<Rightarrow> bool" where
  "clean_bands s b = (\<forall>k v. b k = Some v \<longrightarrow> (\<exists>g. v = Arr g \<and> shape g = s))"

text \<open>
  What holds of the state throughout the try block, for the profile \<open>P\<close> the load
  loop left and the rasters \<open>R0\<close> there were before: the variable holds \<open>P\<close>, as
  loaded or as updated; every call of \<open>save_index\<close> got it; every raster written since
  carries its update; and without a profile nothing is recorded true.
\<close>

definition shared_profile_inv ::
  "profile option \<Rightarrow> (string \<times> profile \<times> grid) list \<Rightarrow> pstate \<Rightarrow> bool" where
  "shared_profile_inv P R0 st =
     ((profile_var st = P \<or> profile_var st = map_option profile_update P) \<and>
      (\<forall>n arr p. SaveIndex n arr p \<in> set (calls st) \<longrightarrow>
         p = P \<or> p = map_option profile_update P) \<and>
      (\<exists>new. rasters (files_out st) = R0 @ new \<and>
         (\<forall>(path, p, g) \<in> set new. \<exists>p0. P = Some p0 \<and> p = profile_update p0)) \<and>
      (P = None \<longrightarrow> (\<forall>n ok. results st n = Some ok \<longrightarrow> \<not> ok)))"

section \<open>Example scenes\<close>

definition all_indices :: "string list" where
  "all_indices = [''NDVI'', ''SAVI'', ''EVI'', ''ARVI'', ''NBR'', ''NBWI'', ''NDBI'', ''GCI'']"

definition prof_a :: profile where
  "prof_a = \<lparr>dtype = ''uint16'', count = 1, width = 1, height = 1, georef = ''EPSG:32633''\<rparr>"

definition prof_b :: profile where
  "prof_b = \<lparr>dtype = ''uint16'', count = 1, width = 1, height = 1, georef = ''EPSG:4326''\<rparr>"

definition fs_fresh :: out_fs where
  "fs_fresh = \<lparr>root_exists = False, rasters = [], summaries = []\<rparr>"

text \<open>
  An environment with exact arithmetic, the given input files and raster writer, and
  every directory and summary file writable.
\<close>

definition env_with ::
  "(string \<Rightarrow> band_file) \<Rightarrow> (string \<Rightarrow> profile \<Rightarrow> grid \<Rightarrow> bool) \<Rightarrow> env" where
  "env_with fl w =
     \<lparr>float_rnd = Fin, input_files = fl, INPUT_ROOT = ''in'', OUTPUT_ROOT = ''out'',
      timestamp = ''t0'', makedirs_ok = (\<lambda>d. True), raster_write_ok = w,
      csv_open_ok = (\<lambda>f. True)\<rparr>"

definition write_all :: "string \<Rightarrow> profile \<Rightarrow> grid \<Rightarrow> bool" where
  "write_all path p g = True"


definition files_none :: "string \<Rightarrow> band_file" where
  "files_none = (\<lambda>path. Missing)"

definition files_b3_b5 :: "string \<Rightarrow> band_file" where
  "files_b3_b5 =
     files_none(''in/s1/B3.tif'' := Readable [[Fin 2]] prof_a,
                ''in/s1/B5.tif'' := Readable [[Fin 4]] prof_a)"

definition files_b3_b5_b6 :: "string \<Rightarrow> band_file" where
  "files_b3_b5_b6 = files_b3_b5(''in/s1/B6.tif'' := Readable [[Fin 1]] prof_b)"


definition files_b3_b5_b7 :: "string \<Rightarrow> band_file" where
  "files_b3_b5_b7 = files_b3_b5(''in/s1/B7.tif'' := Readable [[Fin 6]] prof_a)"

definition files_b4_unreadable :: "string \<Rightarrow> band_file" where
  "files_b4_unreadable =
     files_none(''in/s1/B4.tif'' := Unreadable,
                ''in/s1/B5.tif'' := Readable [[Fin 4]] prof_a,
                ''in/s1/B7.tif'' := Readable [[Fin 6]] prof_a)"

definition files_b2_b4_b5 :: "string \<Rightarrow> band_file" where
  "files_b2_b4_b5 =
     files_none(''in/s1/B2.tif'' := Readable [[Fin 1]] prof_a,
                ''in/s1/B4.tif'' := Readable [[Fin 2]] prof_a,
                ''in/s1/B5.tif'' := Readable [[Fin 4]] prof_a)"

definition files_b3_b4_b5 :: "string \<Rightarrow> band_file" where
  "files_b3_b4_b5 =
     files_none(''in/s1/B3.tif'' := Readable [[Fin 3]] prof_a,
                ''in/s1/B4.tif'' := Readable [[Fin 2]] prof_a,
                ''in/s1/B5.tif'' := Readable [[Fin 4]] prof_a)"


section \<open>Properties of the index formulas\<close>



















subsection \<open>Grids of one shape\<close>

lemma cell_in_range: "i < nrows g \<Longrightarrow> j < ncols g \<Longrightarrow> cell g i j = g ! i ! j"
  by (auto simp: cell_def)

lemma elementwise_same_shape:
  assumes "shape a = shape b"
  shows "elementwise f a b =
           Inr (map (\<lambda>i. map (\<lambda>j. f (a ! i ! j) (b ! i ! j)) [0..<ncols a]) [0..<nrows a])"
proof -
  from assms have r: "nrows b = nrows a" and c: "ncols b = ncols a"
    by (simp_all add: shape_def)
  show ?thesis
    by (simp add: elementwise_def broadcast_dim_def r c cell_in_range)
qed

lemma ncols_tabulate: "ncols (map h [0..<n]) = (if n = 0 then 0 else length (h 0))"
  by (cases n) (simp_all add: ncols_def upt_conv_Cons del: upt_Suc)

lemma ncols_empty_rows: "nrows a = 0 \<Longrightarrow> ncols a = 0"
  by (simp add: nrows_def ncols_def)

lemma shape_tabulate:
  "(\<And>i. length (h i) = ncols a) \<Longrightarrow> shape (map h [0..<nrows a]) = shape a"
  by (simp add: shape_def ncols_tabulate ncols_empty_rows) (simp add: nrows_def)

lemma shape_map_map: "shape (map (map h) g) = shape g"
  by (cases g) (simp_all add: shape_def nrows_def ncols_def)

lemma safe_divide_same_shape:
  assumes "shape ga = shape gb"
  shows "\<exists>g. safe_divide rnd (Arr ga) (Arr gb) = Inr (Arr g) \<and> shape g = shape ga \<and>
           (\<forall>i j. i < nrows ga \<longrightarrow> j < ncols ga \<longrightarrow>
              g ! i ! j = nan_to_zero (fdiv rnd (ga ! i ! j) (gb ! i ! j)))"
proof -
  let ?q = "map (\<lambda>i. map (\<lambda>j. fdiv rnd (ga ! i ! j) (gb ! i ! j)) [0..<ncols ga])
              [0..<nrows ga]"
  have q: "elementwise (fdiv rnd) ga gb = Inr ?q"
    by (rule elementwise_same_shape[OF assms])
  have "shape ?q = shape ga"
    by (rule shape_tabulate) simp
  then have "shape (map (map nan_to_zero) ?q) = shape ga"
    by (simp only: shape_map_map)
  moreover have "\<forall>i j. i < nrows ga \<longrightarrow> j < ncols ga \<longrightarrow>
      map (map nan_to_zero) ?q ! i ! j = nan_to_zero (fdiv rnd (ga ! i ! j) (gb ! i ! j))"
    by simp
  moreover have "safe_divide rnd (Arr ga) (Arr gb) = Inr (Arr (map (map nan_to_zero) ?q))"
    by (simp add: safe_divide_def bind_err_def q)
  ultimately show ?thesis by blast
qed

lemmas formula_defs =
  calculate_ndvi_def calculate_savi_def calculate_evi_def calculate_arvi_def
  calculate_nbr_def calculate_nbwi_def calculate_ndbi_def calculate_gci_def safe_divide_def
  bind_err_def elementwise_def broadcast_dim_def nrows_def ncols_def cell_def
  nan_to_zero_def is_nan_def signed_inf_def fsub_def

text \<open>
  Claim C1 (safe_divide gives 0 wherever the denominator is 0, and the quotient
  elsewhere). The code does not do this: only NaN is overwritten, so a nonzero numerator
  over a zero denominator stays an infinity. On the numerators 1, 0, -1, 6 over the
  denominators 0, 0, 0, 3 the result is +inf, 0, -inf, 2: it is 0 at the zero
  denominator only where the numerator is 0 as well.
\<close>

theorem C1_safe_divide_keeps_infinity:
  "safe_divide Fin (Arr [[Fin 1, Fin 0, Fin (- 1), Fin 6]]) (Arr [[Fin 0, Fin 0, Fin 0, Fin 3]])
     = Inr (Arr [[PInf, Fin 0, NInf, Fin 2]])"
  by (simp add: formula_defs)

text \<open>
  Claim C4 (GREEN = [[0.0]] and NIR = [[0.5]] give GCI = [[-1.0]]). The code returns
  [[+inf]] there: 0.5 / 0.0 is +inf, which is not a NaN and is kept, and +inf - 1 is
  +inf. With NIR = [[0.0]] as well the quotient is NaN, is overwritten with 0, and GCI
  is [[-1.0]].
\<close>

theorem C4_gci_zero_green_is_infinite:
  "calculate_gci Fin (Arr [[Fin (1 / 2)]]) (Arr [[Fin 0]]) = Inr (Arr [[PInf]]) \<and>
   calculate_gci Fin (Arr [[Fin 0]]) (Arr [[Fin 0]]) = Inr (Arr [[Fin (- 1)]])"
  by (simp add: formula_defs)




section \<open>Properties of the load loop\<close>

lemma load_bands_lookup:
  "distinct (map fst bf) \<Longrightarrow>
   fst (load_bands e sp bf (bands, prof)) k =
     (case map_of bf k of
        None \<Rightarrow> bands k
      | Some f \<Rightarrow>
          if path_exists e (path_join sp f) then Some (fst (load_band e (path_join sp f)))
          else bands k)"
proof (induction bf arbitrary: bands prof)
  case Nil
  then show ?case by simp
next
  case (Cons x bf)
  obtain k' f' where x: "x = (k', f')" by (cases x)
  from Cons.prems x have d: "distinct (map fst bf)" and nk: "k' \<notin> fst ` set bf"
    by simp_all
  from nk have none: "map_of bf k' = None"
    by (simp add: map_of_eq_None_iff)
  show ?case
  proof (cases "path_exists e (path_join sp f')")
    case True
    obtain arr p where lb: "load_band e (path_join sp f') = (arr, p)"
      by (cases "load_band e (path_join sp f')")
    have step: "load_bands e sp ((k', f') # bf) (bands, prof) =
        load_bands e sp bf (bands(k' \<mapsto> arr), p)"
      using True lb by (simp add: Let_def)
    have ih: "fst (load_bands e sp bf (bands(k' \<mapsto> arr), p)) k =
        (case map_of bf k of
           None \<Rightarrow> (bands(k' \<mapsto> arr)) k
         | Some f \<Rightarrow>
             if path_exists e (path_join sp f) then Some (fst (load_band e (path_join sp f)))
             else (bands(k' \<mapsto> arr)) k)"
      by (rule Cons.IH[OF d])
    show ?thesis
    proof (cases "k = k'")
      case True
      with ih none lb \<open>path_exists e (path_join sp f')\<close> show ?thesis
        unfolding x step by (auto split: option.splits)
    next
      case False
      with ih show ?thesis
        unfolding x step by (auto split: option.splits)
    qed
  next
    case False
    show ?thesis
      using False none Cons.IH[OF d, of bands prof]
      by (auto simp: x Let_def)
  qed
qed

lemma load_bands_profile:
  "snd (load_bands e sp bf (bands, prof)) =
     (case filter (\<lambda>(band_key, filename). path_exists e (path_join sp filename)) bf of
        [] \<Rightarrow> prof
      | ps \<Rightarrow> snd (load_band e (path_join sp (snd (last ps)))))"
proof (induction bf arbitrary: bands prof)
  case Nil
  then show ?case by simp
next
  case (Cons x bf)
  obtain k' f' where x: "x = (k', f')" by (cases x)
  show ?case
  proof (cases "path_exists e (path_join sp f')")
    case True
    obtain arr p where lb: "load_band e (path_join sp f') = (arr, p)"
      by (cases "load_band e (path_join sp f')")
    have "load_bands e sp (x # bf) (bands, prof) = load_bands e sp bf (bands(k' \<mapsto> arr), p)"
      using True lb by (simp add: x Let_def)
    then have "snd (load_bands e sp (x # bf) (bands, prof)) =
        (case filter (\<lambda>(band_key, filename). path_exists e (path_join sp filename)) bf of
           [] \<Rightarrow> p
         | ps \<Rightarrow> snd (load_band e (path_join sp (snd (last ps)))))"
      by (simp only: Cons.IH)
    then show ?thesis
      using True lb by (simp add: x split: list.splits)
  next
    case False
    show ?thesis
      using False Cons.IH[of bands prof]
      by (simp add: x Let_def)
  qed
qed

lemma distinct_band_keys: "distinct (map fst band_files)"
  by (simp add: band_files_def)

lemma loaded_lookup:
  "fst (loaded e sp) k =
     (case map_of band_files k of
        None \<Rightarrow> None
      | Some f \<Rightarrow>
          if path_exists e (path_join sp f) then Some (fst (load_band e (path_join sp f)))
          else None)"
  unfolding loaded_def by (simp add: load_bands_lookup[OF distinct_band_keys])

lemma loaded_profile: "snd (loaded e sp) = last_profile e sp"
  unfolding loaded_def last_profile_def present_files_def
  by (simp add: load_bands_profile)

section \<open>Properties of the scene run\<close>

subsection \<open>One step of the try block\<close>

lemma run_steps_Nil: "run_steps e b sel d [] st = st"
  by (simp add: run_steps_def)

lemma run_steps_Cons:
  "run_steps e b sel d (s # ss) st = run_steps e b sel d ss (index_step e b sel d s st)"
  by (simp add: run_steps_def)

lemma index_step_skip:
  "raised st \<noteq> None \<or> \<not> (issubset req b \<and> n \<in> set sel) \<Longrightarrow>
   index_step e b sel d (req, n, c) st = st"
  by (auto simp: index_step_def split: option.splits)

lemma index_step_raise:
  "raised st = None \<Longrightarrow> issubset req b \<Longrightarrow> n \<in> set sel \<Longrightarrow>
   index_step e b sel d (req, n, Inl err) st =
     st\<lparr>calls := calls st @ [Compute n], raised := Some err\<rparr>"
  by (simp add: index_step_def)

lemma index_step_save:
  "raised st = None \<Longrightarrow> issubset req b \<Longrightarrow> n \<in> set sel \<Longrightarrow>
   save_index e (files_out st) arr n (profile_var st) d = (ok, p', fs') \<Longrightarrow>
   index_step e b sel d (req, n, Inr arr) st =
     st\<lparr>results := (results st)(n \<mapsto> ok), profile_var := p', files_out := fs',
        calls := calls st @ [Compute n, SaveIndex n arr (profile_var st)]\<rparr>"
  by (simp add: index_step_def)

lemma index_step_cases [case_names skip raise save]:
  assumes "raised st \<noteq> None \<or> \<not> (issubset req b \<and> n \<in> set sel) \<Longrightarrow>
           index_step e b sel d (req, n, c) st = st \<Longrightarrow> P"
    and "\<And>err. raised st = None \<Longrightarrow> issubset req b \<Longrightarrow> n \<in> set sel \<Longrightarrow> c = Inl err \<Longrightarrow>
           index_step e b sel d (req, n, c) st =
             st\<lparr>calls := calls st @ [Compute n], raised := Some err\<rparr> \<Longrightarrow> P"
    and "\<And>arr ok p' fs'. raised st = None \<Longrightarrow> issubset req b \<Longrightarrow> n \<in> set sel \<Longrightarrow>
           c = Inr arr \<Longrightarrow>
           save_index e (files_out st) arr n (profile_var st) d = (ok, p', fs') \<Longrightarrow>
           index_step e b sel d (req, n, c) st =
             st\<lparr>results := (results st)(n \<mapsto> ok), profile_var := p', files_out := fs',
                calls := calls st @ [Compute n, SaveIndex n arr (profile_var st)]\<rparr> \<Longrightarrow> P"
  shows P
proof (cases "raised st \<noteq> None \<or> \<not> (issubset req b \<and> n \<in> set sel)")
  case True
  then show ?thesis using assms(1) index_step_skip by blast
next
  case False
  then have g: "raised st = None" "issubset req b" "n \<in> set sel" by auto
  show ?thesis
  proof (cases c)
    case (Inl err)
    then show ?thesis using assms(2)[OF g] index_step_raise[OF g] by simp
  next
    case (Inr arr)
    obtain ok p' fs' where sv: "save_index e (files_out st) arr n (profile_var st) d = (ok, p', fs')"
      by (cases "save_index e (files_out st) arr n (profile_var st) d")
    show ?thesis using assms(3)[OF g Inr sv] index_step_save[OF g sv] Inr by simp
  qed
qed

lemma run_steps_raised: "raised st \<noteq> None \<Longrightarrow> run_steps e b sel d steps st = st"
proof (induction steps)
  case Nil
  then show ?case by (simp add: run_steps_Nil)
next
  case (Cons s steps)
  obtain req n c where s: "s = (req, n, c)" by (cases s)
  from Cons show ?case
    by (simp add: run_steps_Cons s index_step_skip)
qed

subsection \<open>What save_index does\<close>

lemma profile_update_idem: "profile_update (profile_update p) = profile_update p"
  by (simp add: profile_update_def)

lemma save_index_result:
  assumes "save_index e fs0 arr n prof d = (ok, p', fs')"
  shows "(p' = prof \<or> p' = map_option profile_update prof) \<and>
         (ok \<longrightarrow> (\<exists>p g. prof = Some p \<and> arr = Arr g \<and> makedirs_ok e d \<and>
                     raster_write_ok e (path_join d (n @ ''.tif'')) (profile_update p) g \<and>
                     rasters fs' = rasters fs0 @ [(path_join d (n @ ''.tif''), profile_update p, g)])) \<and>
         (\<not> ok \<longrightarrow> rasters fs' = rasters fs0) \<and>
         summaries fs' = summaries fs0 \<and>
         (root_exists fs0 \<longrightarrow> root_exists fs')"
  using assms
  by (auto simp: save_index_def Let_def split: if_splits option.splits pyval.splits)


subsection \<open>Index functions on grids of one shape\<close>

lemma bind_returns:
  "returns_shape s m \<Longrightarrow> (\<And>g. shape g = s \<Longrightarrow> returns_shape s (f (Arr g))) \<Longrightarrow>
   returns_shape s (bind_err m f)"
  by (auto simp: returns_shape_def bind_err_def)

lemma arr_binop_returns:
  "shape a = s \<Longrightarrow> shape b = s \<Longrightarrow> returns_shape s (arr_binop f (Arr a) (Arr b))"
proof -
  assume a: "shape a = s" and b: "shape b = s"
  then have ab: "shape a = shape b" by simp
  have "shape (map (\<lambda>i. map (\<lambda>j. f (a ! i ! j) (b ! i ! j)) [0..<ncols a]) [0..<nrows a]) = shape a"
    by (rule shape_tabulate) simp
  with a show ?thesis
    by (simp add: returns_shape_def bind_err_def elementwise_same_shape[OF ab])
qed

lemma arr_scalar_returns: "shape a = s \<Longrightarrow> returns_shape s (arr_scalar f (Arr a) x)"
  by (simp add: returns_shape_def shape_map_map)

lemma scalar_arr_returns: "shape a = s \<Longrightarrow> returns_shape s (scalar_arr f x (Arr a))"
  by (simp add: returns_shape_def shape_map_map)

lemma safe_divide_returns:
  "shape a = s \<Longrightarrow> shape b = s \<Longrightarrow> returns_shape s (safe_divide rnd (Arr a) (Arr b))"
  using safe_divide_same_shape[of a b rnd] by (auto simp: returns_shape_def)

lemmas returns_intros =
  bind_returns arr_binop_returns arr_scalar_returns scalar_arr_returns safe_divide_returns

lemma ndvi_returns:
  "shape a = s \<Longrightarrow> shape b = s \<Longrightarrow> returns_shape s (calculate_ndvi rnd (Arr a) (Arr b))"
  unfolding calculate_ndvi_def by (intro returns_intros) assumption+

lemma savi_returns:
  "shape a = s \<Longrightarrow> shape b = s \<Longrightarrow> returns_shape s (calculate_savi rnd (Arr a) (Arr b) L)"
  unfolding calculate_savi_def by (intro returns_intros) assumption+

lemma evi_returns:
  "shape a = s \<Longrightarrow> shape b = s \<Longrightarrow> shape c = s \<Longrightarrow>
   returns_shape s (calculate_evi rnd (Arr a) (Arr b) (Arr c) G C1 C2 L)"
  unfolding calculate_evi_def by (intro returns_intros) assumption+

lemma arvi_returns:
  "shape a = s \<Longrightarrow> shape b = s \<Longrightarrow> shape c = s \<Longrightarrow>
   returns_shape s (calculate_arvi rnd (Arr a) (Arr b) (Arr c))"
  unfolding calculate_arvi_def by (intro returns_intros) assumption+

lemma nbr_returns:
  "shape a = s \<Longrightarrow> shape b = s \<Longrightarrow> returns_shape s (calculate_nbr rnd (Arr a) (Arr b))"
  unfolding calculate_nbr_def by (intro returns_intros) assumption+

lemma nbwi_returns:
  "shape a = s \<Longrightarrow> shape b = s \<Longrightarrow> returns_shape s (calculate_nbwi rnd (Arr a) (Arr b))"
  unfolding calculate_nbwi_def by (intro returns_intros) assumption+

lemma ndbi_returns:
  "shape a = s \<Longrightarrow> shape b = s \<Longrightarrow> returns_shape s (calculate_ndbi rnd (Arr a) (Arr b))"
  unfolding calculate_ndbi_def by (intro returns_intros) assumption+

lemma gci_returns:
  "shape a = s \<Longrightarrow> shape b = s \<Longrightarrow> returns_shape s (calculate_gci rnd (Arr a) (Arr b))"
  unfolding calculate_gci_def by (intro returns_intros) assumption+

subsection \<open>The table of index steps\<close>

lemma table_guards:
  "map (\<lambda>(req, n, t). (n, req)) (index_table rnd b) =
     [(''NDVI'', [''B4'', ''B5'']), (''SAVI'', [''B4'', ''B5'']),
      (''EVI'', [''B2'', ''B4'', ''B5'']), (''ARVI'', [''B3'', ''B4'', ''B5'']),
      (''NBR'', [''B5'', ''B7'']), (''NBWI'', [''B3'', ''B5'']),
      (''NDBI'', [''B5'', ''B6'']), (''GCI'', [''B3'', ''B7''])]"
  by (simp add: index_table_def)

lemma table_entry_guard:
  assumes "(req, n, t) \<in> set (index_table rnd b)"
  shows "(n, req) \<in> set [(''NDVI'', [''B4'', ''B5'']), (''SAVI'', [''B4'', ''B5'']),
      (''EVI'', [''B2'', ''B4'', ''B5'']), (''ARVI'', [''B3'', ''B4'', ''B5'']),
      (''NBR'', [''B5'', ''B7'']), (''NBWI'', [''B3'', ''B5'']),
      (''NDBI'', [''B5'', ''B6'']), (''GCI'', [''B3'', ''B7''])]"
proof -
  from assms have "(n, req) \<in> set (map (\<lambda>(req, n, t). (n, req)) (index_table rnd b))"
    by force
  then show ?thesis by (simp only: table_guards)
qed

lemma table_guard_entry:
  assumes "(n, req) \<in> set [(''NDVI'', [''B4'', ''B5'']), (''SAVI'', [''B4'', ''B5'']),
      (''EVI'', [''B2'', ''B4'', ''B5'']), (''ARVI'', [''B3'', ''B4'', ''B5'']),
      (''NBR'', [''B5'', ''B7'']), (''NBWI'', [''B3'', ''B5'']),
      (''NDBI'', [''B5'', ''B6'']), (''GCI'', [''B3'', ''B7''])]"
  shows "\<exists>t. (req, n, t) \<in> set (index_table rnd b)"
proof -
  from assms have "(n, req) \<in> set (map (\<lambda>(req, n, t). (n, req)) (index_table rnd b))"
    by (simp only: table_guards)
  then show ?thesis by (auto simp: image_iff)
qed

lemma getitem_clean:
  "clean_bands s b \<Longrightarrow> b k \<noteq> None \<Longrightarrow> \<exists>g. getitem b k = Inr (Arr g) \<and> shape g = s"
  by (auto simp: clean_bands_def getitem_def)

lemma getitem2_returns:
  assumes c: "clean_bands s b" and k: "b k1 \<noteq> None" "b k2 \<noteq> None"
    and F: "\<And>g1 g2. shape g1 = s \<Longrightarrow> shape g2 = s \<Longrightarrow> returns_shape s (F (Arr g1) (Arr g2))"
  shows "returns_shape s (bind_err (getitem b k1) (\<lambda>x. bind_err (getitem b k2) (\<lambda>y. F x y)))"
proof -
  obtain g1 where "getitem b k1 = Inr (Arr g1)" "shape g1 = s"
    using getitem_clean[OF c k(1)] by blast
  moreover obtain g2 where "getitem b k2 = Inr (Arr g2)" "shape g2 = s"
    using getitem_clean[OF c k(2)] by blast
  ultimately show ?thesis
    using F by (simp add: bind_err_def)
qed

lemma getitem3_returns:
  assumes c: "clean_bands s b" and k: "b k1 \<noteq> None" "b k2 \<noteq> None" "b k3 \<noteq> None"
    and F: "\<And>g1 g2 g3. shape g1 = s \<Longrightarrow> shape g2 = s \<Longrightarrow> shape g3 = s \<Longrightarrow>
              returns_shape s (F (Arr g1) (Arr g2) (Arr g3))"
  shows "returns_shape s (bind_err (getitem b k1) (\<lambda>x. bind_err (getitem b k2) (\<lambda>y.
           bind_err (getitem b k3) (\<lambda>z. F x y z))))"
proof -
  obtain g1 where "getitem b k1 = Inr (Arr g1)" "shape g1 = s"
    using getitem_clean[OF c k(1)] by blast
  moreover obtain g2 where "getitem b k2 = Inr (Arr g2)" "shape g2 = s"
    using getitem_clean[OF c k(2)] by blast
  moreover obtain g3 where "getitem b k3 = Inr (Arr g3)" "shape g3 = s"
    using getitem_clean[OF c k(3)] by blast
  ultimately show ?thesis
    using F by (simp add: bind_err_def)
qed

lemma table_no_raise_all:
  assumes c: "clean_bands s b"
  shows "list_all (\<lambda>(req, n, t). issubset req b \<longrightarrow> returns_shape s t) (index_table rnd b)"
proof -
  have ndvi: "issubset [''B4'', ''B5''] b \<longrightarrow>
      returns_shape s (bind_err (getitem b ''B5'') (\<lambda>b5. bind_err (getitem b ''B4'') (\<lambda>b4. calculate_ndvi rnd b5 b4)))"
    by (intro impI, rule getitem2_returns[OF c]) (simp_all add: issubset_def ndvi_returns)
  have savi: "issubset [''B4'', ''B5''] b \<longrightarrow>
      returns_shape s (bind_err (getitem b ''B5'') (\<lambda>b5. bind_err (getitem b ''B4'') (\<lambda>b4. calculate_savi rnd b5 b4 (1 / 2))))"
    by (intro impI, rule getitem2_returns[OF c]) (simp_all add: issubset_def savi_returns)
  have evi: "issubset [''B2'', ''B4'', ''B5''] b \<longrightarrow>
      returns_shape s (bind_err (getitem b ''B5'') (\<lambda>b5. bind_err (getitem b ''B4'') (\<lambda>b4. bind_err (getitem b ''B2'') (\<lambda>b2. calculate_evi rnd b5 b4 b2 (5 / 2) 6 (15 / 2) 1))))"
    by (intro impI, rule getitem3_returns[OF c]) (simp_all add: issubset_def evi_returns)
  have arvi: "issubset [''B3'', ''B4'', ''B5''] b \<longrightarrow>
      returns_shape s (bind_err (getitem b ''B5'') (\<lambda>b5. bind_err (getitem b ''B4'') (\<lambda>b4. bind_err (getitem b ''B3'') (\<lambda>b3. calculate_arvi rnd b5 b4 b3))))"
    by (intro impI, rule getitem3_returns[OF c]) (simp_all add: issubset_def arvi_returns)
  have nbr: "issubset [''B5'', ''B7''] b \<longrightarrow>
      returns_shape s (bind_err (getitem b ''B5'') (\<lambda>b5. bind_err (getitem b ''B7'') (\<lambda>b7. calculate_nbr rnd b5 b7)))"
    by (intro impI, rule getitem2_returns[OF c]) (simp_all add: issubset_def nbr_returns)
  have nbwi: "issubset [''B3'', ''B5''] b \<longrightarrow>
      returns_shape s (bind_err (getitem b ''B3'') (\<lambda>b3. bind_err (getitem b ''B5'') (\<lambda>b5. calculate_nbwi rnd b3 b5)))"
    by (intro impI, rule getitem2_returns[OF c]) (simp_all add: issubset_def nbwi_returns)
  have ndbi: "issubset [''B5'', ''B6''] b \<longrightarrow>
      returns_shape s (bind_err (getitem b ''B6'') (\<lambda>b6. bind_err (getitem b ''B5'') (\<lambda>b5. calculate_ndbi rnd b6 b5)))"
    by (intro impI, rule getitem2_returns[OF c]) (simp_all add: issubset_def ndbi_returns)
  have gci: "issubset [''B3'', ''B7''] b \<longrightarrow>
      returns_shape s (bind_err (getitem b ''B7'') (\<lambda>b7. bind_err (getitem b ''B3'') (\<lambda>b3. calculate_gci rnd b7 b3)))"
    by (intro impI, rule getitem2_returns[OF c]) (simp_all add: issubset_def gci_returns)
  show ?thesis
    unfolding index_table_def list.pred_inject prod.case
    by (intro conjI ndvi savi evi arvi nbr nbwi ndbi gci) simp
qed

lemma table_no_raise:
  assumes "clean_bands s b" and "(req, n, t) \<in> set (index_table rnd b)" and "issubset req b"
  shows "returns_shape s t"
  using table_no_raise_all[OF assms(1), of rnd] assms(2,3)
  unfolding list_all_iff by blast

lemma clean_scene_bands:
  assumes "clean_scene e sp s"
  shows "clean_bands s (fst (loaded e sp))"
  unfolding clean_bands_def
proof (intro allI impI)
  fix k v
  assume kv: "fst (loaded e sp) k = Some v"
  then obtain f where f: "map_of band_files k = Some f"
    and ex: "path_exists e (path_join sp f)"
    and v: "v = fst (load_band e (path_join sp f))"
    by (auto simp: loaded_lookup split: option.splits if_splits)
  from f have "(k, f) \<in> set band_files" by (rule map_of_SomeD)
  with assms have "case input_files e (path_join sp f) of
      Missing \<Rightarrow> True | Unreadable \<Rightarrow> False | Readable g p \<Rightarrow> shape g = s"
    by (auto simp: clean_scene_def list_all_iff)
  with ex v show "\<exists>g. v = Arr g \<and> shape g = s"
    by (auto simp: path_exists_def load_band_def split: band_file.splits)
qed

subsection \<open>What a run of steps can do\<close>

lemma index_step_attempted:
  "attempted (index_step e b sel d (req, m, t) st) n \<longleftrightarrow>
     attempted st n \<or> (n = m \<and> raised st = None \<and> issubset req b \<and> m \<in> set sel)"
  by (cases "raised st"; cases t; cases "save_index e (files_out st) (projr t) m (profile_var st) d")
     (auto simp: index_step_def attempted_def)

lemma index_step_raised:
  "raised (index_step e b sel d (req, m, t) st) = None \<longleftrightarrow>
     raised st = None \<and> (issubset req b \<and> m \<in> set sel \<longrightarrow> (\<exists>arr. t = Inr arr))"
  by (cases "raised st"; cases t; cases "save_index e (files_out st) (projr t) m (profile_var st) d")
     (auto simp: index_step_def)

lemma index_step_results:
  "results (index_step e b sel d (req, m, t) st) n \<noteq> None \<longleftrightarrow>
     results st n \<noteq> None \<or>
     (n = m \<and> raised st = None \<and> issubset req b \<and> m \<in> set sel \<and> (\<exists>arr. t = Inr arr))"
  by (cases "raised st"; cases t; cases "save_index e (files_out st) (projr t) m (profile_var st) d")
     (auto simp: index_step_def)

lemma index_step_save_call:
  "SaveIndex n arr p \<in> set (calls (index_step e b sel d (req, m, t) st)) \<Longrightarrow>
     SaveIndex n arr p \<in> set (calls st) \<or>
     (n = m \<and> raised st = None \<and> issubset req b \<and> m \<in> set sel \<and> p = profile_var st)"
  by (cases "raised st"; cases t; cases "save_index e (files_out st) (projr t) m (profile_var st) d")
     (auto simp: index_step_def split: if_splits)

lemma run_steps_bound:
  "(attempted (run_steps e b sel d steps st) n \<longrightarrow>
      attempted st n \<or> (\<exists>req t. (req, n, t) \<in> set steps \<and> issubset req b \<and> n \<in> set sel)) \<and>
   (results (run_steps e b sel d steps st) n \<noteq> None \<longrightarrow>
      results st n \<noteq> None \<or>
      (\<exists>req t. (req, n, t) \<in> set steps \<and> issubset req b \<and> n \<in> set sel))"
proof (induction steps arbitrary: st)
  case Nil
  show ?case by (simp add: run_steps_Nil)
next
  case (Cons x steps)
  obtain req m t where x: "x = (req, m, t)" by (cases x)
  let ?st' = "index_step e b sel d (req, m, t) st"
  have a: "attempted ?st' n \<longrightarrow> attempted st n \<or> (n = m \<and> issubset req b \<and> n \<in> set sel)"
    by (simp add: index_step_attempted)
  have r: "results ?st' n \<noteq> None \<longrightarrow>
      results st n \<noteq> None \<or> (n = m \<and> issubset req b \<and> n \<in> set sel)"
    by (simp only: index_step_results) blast
  have m: "n = m \<and> issubset req b \<and> n \<in> set sel \<longrightarrow>
      (\<exists>req t. (req, n, t) \<in> set (x # steps) \<and> issubset req b \<and> n \<in> set sel)"
    unfolding x by auto
  have s: "(\<exists>req t. (req, n, t) \<in> set steps \<and> issubset req b \<and> n \<in> set sel) \<longrightarrow>
      (\<exists>req t. (req, n, t) \<in> set (x # steps) \<and> issubset req b \<and> n \<in> set sel)"
    by auto
  from Cons.IH[of ?st'] a r m s show ?case
    unfolding x run_steps_Cons by blast
qed

lemma run_steps_no_raise:
  assumes "raised st = None"
    and "\<forall>(req, n, t) \<in> set steps. issubset req b \<longrightarrow> (\<exists>arr. t = Inr arr)"
  shows "raised (run_steps e b sel d steps st) = None \<and>
         (attempted (run_steps e b sel d steps st) n \<longleftrightarrow>
            attempted st n \<or>
            (\<exists>req t. (req, n, t) \<in> set steps \<and> issubset req b \<and> n \<in> set sel)) \<and>
         (results (run_steps e b sel d steps st) n \<noteq> None \<longleftrightarrow>
            results st n \<noteq> None \<or>
            (\<exists>req t. (req, n, t) \<in> set steps \<and> issubset req b \<and> n \<in> set sel))"
  using assms
proof (induction steps arbitrary: st)
  case Nil
  then show ?case by (simp add: run_steps_Nil)
next
  case (Cons x steps)
  obtain req m t where x: "x = (req, m, t)" by (cases x)
  let ?st' = "index_step e b sel d (req, m, t) st"
  let ?here = "n = m \<and> issubset req b \<and> n \<in> set sel"
  let ?later = "\<exists>req t. (req, n, t) \<in> set steps \<and> issubset req b \<and> n \<in> set sel"
  from Cons.prems(2) x have ok: "issubset req b \<longrightarrow> (\<exists>arr. t = Inr arr)"
    and rest: "\<forall>(req, n, t) \<in> set steps. issubset req b \<longrightarrow> (\<exists>arr. t = Inr arr)"
    by auto
  have r: "raised ?st' = None"
    using Cons.prems(1) ok by (simp add: index_step_raised)
  have a: "attempted ?st' n \<longleftrightarrow> attempted st n \<or> ?here"
    using Cons.prems(1) by (simp add: index_step_attempted) blast
  have rs: "results ?st' n \<noteq> None \<longleftrightarrow> results st n \<noteq> None \<or> ?here"
    using Cons.prems(1) ok by (simp only: index_step_results) blast
  have split: "(\<exists>req t. (req, n, t) \<in> set (x # steps) \<and> issubset req b \<and> n \<in> set sel) \<longleftrightarrow>
      ?here \<or> ?later"
    unfolding x by auto
  from Cons.IH[OF r rest] a rs split show ?case
    unfolding x run_steps_Cons by blast
qed

section \<open>Which indices a scene attempts\<close>

lemma run_scene_unfold:
  "run_scene e fs0 sp sel =
     run_steps e (fst (loaded e sp)) sel (path_join (OUTPUT_ROOT e) (basename sp))
       (index_table (float_rnd e) (fst (loaded e sp)))
       \<lparr>results = Map.empty, profile_var = snd (loaded e sp), files_out = fs0,
        calls = [], raised = None\<rparr>"
  by (simp add: run_scene_def split: prod.splits)

lemma entries_process_scene:
  "entries (process_scene e fs0 sp sel) = results (run_scene e fs0 sp sel)"
  by (simp add: process_scene_def)

lemma table_req_unique:
  assumes "(req, n, t) \<in> set (index_table rnd b)" and "(req', n, t') \<in> set (index_table rnd b)"
  shows "req = req'"
proof -
  let ?L = "[(''NDVI'', [''B4'', ''B5'']), (''SAVI'', [''B4'', ''B5'']),
      (''EVI'', [''B2'', ''B4'', ''B5'']), (''ARVI'', [''B3'', ''B4'', ''B5'']),
      (''NBR'', [''B5'', ''B7'']), (''NBWI'', [''B3'', ''B5'']),
      (''NDBI'', [''B5'', ''B6'']), (''GCI'', [''B3'', ''B7''])]"
  have d: "distinct (map fst ?L)" by simp
  from d table_entry_guard[OF assms(1)] table_entry_guard[OF assms(2)]
  show ?thesis by (rule eq_key_imp_eq_value)
qed

lemma missing_b2:
  assumes "input_files e (path_join sp ''B2.tif'') = Missing"
  shows "\<not> issubset [''B2'', ''B4'', ''B5''] (fst (loaded e sp))"
  using assms by (simp add: issubset_def loaded_lookup band_files_def path_exists_def)

text \<open>
  An index whose test on the bands fails is not attempted and gets no entry, on any
  scene.
\<close>

lemma guard_fails_not_attempted:
  assumes "\<And>req t. (req, n, t) \<in> set (index_table (float_rnd e) (fst (loaded e sp))) \<Longrightarrow>
             \<not> issubset req (fst (loaded e sp))"
  shows "\<not> attempted (run_scene e fs0 sp sel) n \<and> entries (process_scene e fs0 sp sel) n = None"
proof -
  let ?b = "fst (loaded e sp)"
  let ?st0 = "\<lparr>results = Map.empty, profile_var = snd (loaded e sp), files_out = fs0,
        calls = [], raised = None\<rparr>"
  let ?R = "run_steps e ?b sel (path_join (OUTPUT_ROOT e) (basename sp))
      (index_table (float_rnd e) ?b) ?st0"
  from assms have no: "\<not> (\<exists>req t. (req, n, t) \<in> set (index_table (float_rnd e) ?b) \<and>
      issubset req ?b \<and> n \<in> set sel)"
    by blast
  have a0: "\<not> attempted ?st0 n" by (simp add: attempted_def)
  have r0: "results ?st0 n = None" by simp
  have "(attempted ?R n \<longrightarrow> attempted ?st0 n \<or>
          (\<exists>req t. (req, n, t) \<in> set (index_table (float_rnd e) ?b) \<and>
             issubset req ?b \<and> n \<in> set sel)) \<and>
        (results ?R n \<noteq> None \<longrightarrow> results ?st0 n \<noteq> None \<or>
          (\<exists>req t. (req, n, t) \<in> set (index_table (float_rnd e) ?b) \<and>
             issubset req ?b \<and> n \<in> set sel))"
    by (rule run_steps_bound)
  with no a0 r0 have "\<not> attempted ?R n \<and> results ?R n = None"
    by blast
  then show ?thesis
    unfolding run_scene_unfold entries_process_scene .
qed

text \<open>
  A scene whose file B2.tif is missing never has EVI attempted, and its result has no
  EVI entry.
\<close>

lemma evi_skipped_without_b2:
  assumes "input_files e (path_join sp ''B2.tif'') = Missing"
  shows "\<not> attempted (run_scene e fs0 sp sel) ''EVI'' \<and>
         entries (process_scene e fs0 sp sel) ''EVI'' = None"
proof (rule guard_fails_not_attempted)
  fix req t
  assume "(req, ''EVI'', t) \<in> set (index_table (float_rnd e) (fst (loaded e sp)))"
  from table_entry_guard[OF this] have "req = [''B2'', ''B4'', ''B5'']" by simp
  with missing_b2[OF assms] show "\<not> issubset req (fst (loaded e sp))" by simp
qed

text \<open>
  On a scene in which every band file that exists loads and all grids have one shape,
  each of the eight statements attempts its index exactly when the index is selected and
  the bands the statement tests are in the dictionary, and exactly the attempted indices
  get an entry in the result.
\<close>

lemma clean_scene_attempted:
  assumes clean: "clean_scene e sp s"
    and m: "(req0, n, t0) \<in> set (index_table (float_rnd e) (fst (loaded e sp)))"
  shows "(attempted (run_scene e fs0 sp sel) n \<longleftrightarrow>
            n \<in> set sel \<and> issubset req0 (fst (loaded e sp))) \<and>
         (entries (process_scene e fs0 sp sel) n \<noteq> None \<longleftrightarrow>
            attempted (run_scene e fs0 sp sel) n)"
proof -
  let ?b = "fst (loaded e sp)"
  let ?st0 = "\<lparr>results = Map.empty, profile_var = snd (loaded e sp), files_out = fs0,
        calls = [], raised = None\<rparr>"
  have cb: "clean_bands s ?b" by (rule clean_scene_bands[OF clean])
  have ok: "\<forall>(req, n, t) \<in> set (index_table (float_rnd e) ?b).
      issubset req ?b \<longrightarrow> (\<exists>arr. t = Inr arr)"
    using table_no_raise[OF cb] by (fastforce simp: returns_shape_def)
  have ex: "(\<exists>req t. (req, n, t) \<in> set (index_table (float_rnd e) ?b) \<and>
      issubset req ?b \<and> n \<in> set sel) \<longleftrightarrow> n \<in> set sel \<and> issubset req0 ?b"
    using table_req_unique[OF m] m by blast
  let ?R = "run_steps e ?b sel (path_join (OUTPUT_ROOT e) (basename sp))
      (index_table (float_rnd e) ?b) ?st0"
  have a0: "\<not> attempted ?st0 n" by (simp add: attempted_def)
  have r0: "results ?st0 n = None" by simp
  have st0: "raised ?st0 = None" by simp
  have "raised ?R = None \<and>
       (attempted ?R n \<longleftrightarrow> attempted ?st0 n \<or>
          (\<exists>req t. (req, n, t) \<in> set (index_table (float_rnd e) ?b) \<and>
             issubset req ?b \<and> n \<in> set sel)) \<and>
       (results ?R n \<noteq> None \<longleftrightarrow> results ?st0 n \<noteq> None \<or>
          (\<exists>req t. (req, n, t) \<in> set (index_table (float_rnd e) ?b) \<and>
             issubset req ?b \<and> n \<in> set sel))"
    by (rule run_steps_no_raise[OF st0 ok])
  with ex a0 r0 have "(attempted ?R n \<longleftrightarrow> n \<in> set sel \<and> issubset req0 ?b) \<and>
      (results ?R n \<noteq> None \<longleftrightarrow> attempted ?R n)"
    by blast
  then show ?thesis
    unfolding run_scene_unfold entries_process_scene .
qed

section \<open>Where the code departs from its description\<close>

text \<open>
  Claim C2 (GCI is safe_divide(NIR, GREEN) - 1 with NIR = B5 and GREEN = B3, attempted
  exactly when B5 and B3 are present and GCI is selected). The code tests for B3 and B7
  and passes B7 as \<open>nir\<close>. On a scene with B3 and B5 loaded and GCI selected, GCI is
  not attempted and the result has no GCI entry. On a scene with B3 = [[2]], B5 = [[4]]
  and B7 = [[6]] the grid handed to \<open>save_index\<close> is [[2]] = 6/2 - 1, computed from B7,
  where the formula on B5 gives 4/2 - 1 = [[1]].
\<close>

theorem C2_gci_uses_b7:
  "fst (loaded (env_with files_b3_b5 write_all) ''in/s1'') ''B3'' = Some (Arr [[Fin 2]]) \<and>
   fst (loaded (env_with files_b3_b5 write_all) ''in/s1'') ''B5'' = Some (Arr [[Fin 4]]) \<and>
   ''GCI'' \<in> set all_indices \<and>
   \<not> attempted (run_scene (env_with files_b3_b5 write_all) fs_fresh ''in/s1'' all_indices) ''GCI'' \<and>
   entries (process_scene (env_with files_b3_b5 write_all) fs_fresh ''in/s1'' all_indices) ''GCI''
     = None \<and>
   calls (run_scene (env_with files_b3_b5_b7 write_all) fs_fresh ''in/s1'' [''GCI''])
     = [Compute ''GCI'', SaveIndex ''GCI'' (Arr [[Fin 2]]) (Some prof_a)] \<and>
   calculate_gci Fin (Arr [[Fin 6]]) (Arr [[Fin 2]]) = Inr (Arr [[Fin 2]]) \<and>
   calculate_gci Fin (Arr [[Fin 4]]) (Arr [[Fin 2]]) = Inr (Arr [[Fin 1]])"
  by code_simp

text \<open>
  Claim C5 (EVI is skipped without B2 while NDVI and SAVI are still produced; in
  general, a requested index is attempted exactly when all the bands it requires are
  present). ARVI is computed from NIR, RED and BLUE, that is from B5, B4 and B2. The
  code tests for B3, B4 and B5 and passes B3 as \<open>blue\<close>. On a scene with B2 = [[1]],
  B4 = [[2]] and B5 = [[4]], all loaded and of one shape, and every index selected, ARVI
  is not attempted and the result has no ARVI entry, although the formula on these bands
  gives [[1]]; EVI, which takes BLUE as well, is attempted on that scene. On a scene
  with B3 = [[3]], B4 = [[2]], B5 = [[4]] and no B2, ARVI is attempted, and the grid
  handed to \<open>save_index\<close> is computed with B3 in the place of BLUE.
\<close>

theorem C5_arvi_tests_b3:
  "clean_scene (env_with files_b2_b4_b5 write_all) ''in/s1'' (1, 1) \<and>
   fst (loaded (env_with files_b2_b4_b5 write_all) ''in/s1'') ''B2'' = Some (Arr [[Fin 1]]) \<and>
   fst (loaded (env_with files_b2_b4_b5 write_all) ''in/s1'') ''B4'' = Some (Arr [[Fin 2]]) \<and>
   fst (loaded (env_with files_b2_b4_b5 write_all) ''in/s1'') ''B5'' = Some (Arr [[Fin 4]]) \<and>
   issubset [''B2'', ''B4'', ''B5''] (fst (loaded (env_with files_b2_b4_b5 write_all) ''in/s1'')) \<and>
   ''ARVI'' \<in> set all_indices \<and>
   calculate_arvi Fin (Arr [[Fin 4]]) (Arr [[Fin 2]]) (Arr [[Fin 1]]) = Inr (Arr [[Fin 1]]) \<and>
   \<not> attempted (run_scene (env_with files_b2_b4_b5 write_all) fs_fresh ''in/s1'' all_indices)
     ''ARVI'' \<and>
   entries (process_scene (env_with files_b2_b4_b5 write_all) fs_fresh ''in/s1'' all_indices)
     ''ARVI'' = None \<and>
   attempted (run_scene (env_with files_b2_b4_b5 write_all) fs_fresh ''in/s1'' all_indices)
     ''EVI'' \<and>
   fst (loaded (env_with files_b3_b4_b5 write_all) ''in/s1'') ''B2'' = None \<and>
   calls (run_scene (env_with files_b3_b4_b5 write_all) fs_fresh ''in/s1'' [''ARVI''])
     = [Compute ''ARVI'', SaveIndex ''ARVI'' (Arr [[Fin 0]]) (Some prof_a)]"
proof -
  let ?e = "env_with files_b2_b4_b5 write_all"
  let ?b = "fst (loaded ?e ''in/s1'')"
  have ev: "clean_scene ?e ''in/s1'' (1, 1) \<and>
      ?b ''B2'' = Some (Arr [[Fin 1]]) \<and> ?b ''B4'' = Some (Arr [[Fin 2]]) \<and>
      ?b ''B5'' = Some (Arr [[Fin 4]]) \<and>
      issubset [''B2'', ''B4'', ''B5''] ?b \<and> ''ARVI'' \<in> set all_indices \<and>
      calculate_arvi Fin (Arr [[Fin 4]]) (Arr [[Fin 2]]) (Arr [[Fin 1]]) = Inr (Arr [[Fin 1]]) \<and>
      fst (loaded (env_with files_b3_b4_b5 write_all) ''in/s1'') ''B2'' = None"
    by code_simp
  have nb3: "\<not> issubset [''B3'', ''B4'', ''B5''] ?b"
    by code_simp
  have arvi: "\<not> attempted (run_scene ?e fs_fresh ''in/s1'' all_indices) ''ARVI'' \<and>
      entries (process_scene ?e fs_fresh ''in/s1'' all_indices) ''ARVI'' = None"
  proof (rule guard_fails_not_attempted)
    fix req t
    assume "(req, ''ARVI'', t) \<in> set (index_table (float_rnd ?e) ?b)"
    from table_entry_guard[OF this] have "req = [''B3'', ''B4'', ''B5'']" by simp
    with nb3 show "\<not> issubset req ?b" by simp
  qed
  obtain t where t: "([''B2'', ''B4'', ''B5''], ''EVI'', t) \<in> set (index_table (float_rnd ?e) ?b)"
    using table_guard_entry[of "''EVI''" "[''B2'', ''B4'', ''B5'']" "float_rnd ?e" ?b] by auto
  have "''EVI'' \<in> set all_indices"
    by (simp add: all_indices_def)
  with clean_scene_attempted[OF _ t, of "(1, 1)" fs_fresh all_indices] ev
  have evi: "attempted (run_scene ?e fs_fresh ''in/s1'' all_indices) ''EVI''"
    by blast
  have run: "calls (run_scene (env_with files_b3_b4_b5 write_all) fs_fresh ''in/s1'' [''ARVI''])
     = [Compute ''ARVI'', SaveIndex ''ARVI'' (Arr [[Fin 0]]) (Some prof_a)]"
    by code_simp
  from ev arvi evi run show ?thesis by blast
qed

text \<open>
  Claim C3 (after the load phase no band name is bound to a null value). The tuple
  assignment binds the key before the result is looked at: with B4.tif present but
  unreadable, \<open>bands\<close> maps B4 to \<open>None\<close>. The test for B4 and B5 then passes, the
  NDVI function raises TypeError on the \<open>None\<close> operand, and no index of the scene is
  persisted, NBR (on the loaded B5 and B7) included.
\<close>

theorem C3_failed_load_leaves_none:
  "input_files (env_with files_b4_unreadable write_all) ''in/s1/B4.tif'' = Unreadable \<and>
   fst (loaded (env_with files_b4_unreadable write_all) ''in/s1'') ''B4'' = Some PyNone \<and>
   issubset [''B4'', ''B5''] (fst (loaded (env_with files_b4_unreadable write_all) ''in/s1'')) \<and>
   raised (run_scene (env_with files_b4_unreadable write_all) fs_fresh ''in/s1'' all_indices)
     = Some TypeError \<and>
   calls (run_scene (env_with files_b4_unreadable write_all) fs_fresh ''in/s1'' all_indices)
     = [Compute ''NDVI''] \<and>
   issubset [''B5'', ''B7''] (fst (loaded (env_with files_b4_unreadable write_all) ''in/s1'')) \<and>
   entries (process_scene (env_with files_b4_unreadable write_all) fs_fresh ''in/s1''
     all_indices) ''NBR'' = None"
  by code_simp

text \<open>
  Claim C7 (every batch run writes the summary, even if every scene fails entirely).
  The only place that creates \<open>OUTPUT_ROOT\<close> is \<open>save_index\<close>. With one scene whose
  folder holds no band file and an output root that does not exist yet, no index is
  saved, \<open>save_summary\<close> cannot open its file, and the exception ends the run with no
  summary written. Where an index is saved first, the summary is written.
\<close>

theorem C7_summary_not_written:
  "\<not> root_exists fs_fresh \<and>
   (case run_batch_one (env_with files_none write_all) fs_fresh ''s1'' all_indices of
      Inl err \<Rightarrow> err = OSError | Inr fs' \<Rightarrow> False) \<and>
   (case run_batch_one (env_with files_b3_b5 write_all) fs_fresh ''s1'' all_indices of
      Inl err \<Rightarrow> False
    | Inr fs' \<Rightarrow> map fst (summaries fs') = [''out/summary_t0.csv''])"
  by code_simp

section \<open>A failed write\<close>



section \<open>The shared profile\<close>

lemma map_option_update_idem:
  "map_option profile_update (map_option profile_update P) = map_option profile_update P"
  by (cases P) (simp_all add: profile_update_idem)

lemma index_step_profile_inv:
  assumes inv: "shared_profile_inv P R0 st"
  shows "shared_profile_inv P R0 (index_step e b sel d (req, n, t) st)"
proof (cases rule: index_step_cases[of st req b n sel e d t])
  case skip
  with inv show ?thesis by simp
next
  case (raise err)
  from inv have pv: "profile_var st = P \<or> profile_var st = map_option profile_update P"
    and cl: "\<forall>n arr p. SaveIndex n arr p \<in> set (calls st) \<longrightarrow>
         p = P \<or> p = map_option profile_update P"
    and rs: "\<exists>new. rasters (files_out st) = R0 @ new \<and>
         (\<forall>(path, p, g) \<in> set new. \<exists>p0. P = Some p0 \<and> p = profile_update p0)"
    and nn: "P = None \<longrightarrow> (\<forall>n ok. results st n = Some ok \<longrightarrow> \<not> ok)"
    unfolding shared_profile_inv_def by blast+
  show ?thesis
    unfolding raise(5) shared_profile_inv_def
    using pv cl rs nn by auto
next
  case (save arr ok p' fs')
  note sr = save_index_result[OF save(5)]
  from inv have pv: "profile_var st = P \<or> profile_var st = map_option profile_update P"
    and cl: "\<forall>n arr p. SaveIndex n arr p \<in> set (calls st) \<longrightarrow>
         p = P \<or> p = map_option profile_update P"
    and rs: "\<exists>new. rasters (files_out st) = R0 @ new \<and>
         (\<forall>(path, p, g) \<in> set new. \<exists>p0. P = Some p0 \<and> p = profile_update p0)"
    and nn: "P = None \<longrightarrow> (\<forall>n ok. results st n = Some ok \<longrightarrow> \<not> ok)"
    unfolding shared_profile_inv_def by blast+
  from sr pv have pv': "p' = P \<or> p' = map_option profile_update P"
    using map_option_update_idem by metis
  from rs obtain new where new: "rasters (files_out st) = R0 @ new"
    and newp: "\<forall>(path, p, g) \<in> set new. \<exists>p0. P = Some p0 \<and> p = profile_update p0"
    by blast
  have rs': "\<exists>new'. rasters fs' = R0 @ new' \<and>
         (\<forall>(path, p, g) \<in> set new'. \<exists>p0. P = Some p0 \<and> p = profile_update p0)"
  proof (cases ok)
    case True
    with sr obtain p g where p: "profile_var st = Some p"
      and r: "rasters fs' = rasters (files_out st) @ [(path_join d (n @ ''.tif''), profile_update p, g)]"
      by blast
    from p pv obtain p0 where p0: "P = Some p0" "profile_update p = profile_update p0"
      by (cases P) (auto simp: profile_update_idem)
    have "rasters fs' = R0 @ (new @ [(path_join d (n @ ''.tif''), profile_update p, g)])"
      using r new by simp
    moreover have "\<forall>(path, q, g) \<in> set (new @ [(path_join d (n @ ''.tif''), profile_update p, g)]).
        \<exists>p0. P = Some p0 \<and> q = profile_update p0"
      using newp p0 by auto
    ultimately show ?thesis by blast
  next
    case False
    with sr have "rasters fs' = rasters (files_out st)" by simp
    with new newp show ?thesis by auto
  qed
  have nn': "P = None \<longrightarrow> \<not> ok"
    using sr pv by auto
  show ?thesis
    unfolding save(6) shared_profile_inv_def
    using pv' pv cl rs' nn nn' by auto
qed

lemma run_steps_profile_inv:
  "shared_profile_inv P R0 st \<Longrightarrow> shared_profile_inv P R0 (run_steps e b sel d steps st)"
proof (induction steps arbitrary: st)
  case Nil
  then show ?case by (simp add: run_steps_Nil)
next
  case (Cons x steps)
  obtain req n t where x: "x = (req, n, t)" by (cases x)
  from Cons.prems have "shared_profile_inv P R0 (index_step e b sel d (req, n, t) st)"
    by (rule index_step_profile_inv)
  then show ?case
    unfolding x run_steps_Cons by (rule Cons.IH)
qed

text \<open>
  Claim C9: the load loop leaves in \<open>profile\<close> the profile returned for the last band
  file, in the order B2 to B7, that exists (\<open>None\<close> if there is none or its load failed).
  Every call of \<open>save_index\<close> in the scene gets that one profile object (as loaded, or
  as already updated in place by an earlier save), every raster written carries it with
  dtype float32 and count 1, and when it is \<open>None\<close> no index is recorded true. No band
  an index uses enters into this.
\<close>

theorem C9_shared_profile:
  "snd (loaded e sp) = last_profile e sp \<and>
   (\<forall>n arr p. SaveIndex n arr p \<in> set (calls (run_scene e fs0 sp sel)) \<longrightarrow>
      p = last_profile e sp \<or> p = map_option profile_update (last_profile e sp)) \<and>
   (\<exists>new. rasters (files_out (run_scene e fs0 sp sel)) = rasters fs0 @ new \<and>
      (\<forall>(path, p, g) \<in> set new. \<exists>p0. last_profile e sp = Some p0 \<and> p = profile_update p0)) \<and>
   (last_profile e sp = None \<longrightarrow>
      (\<forall>n ok. entries (process_scene e fs0 sp sel) n = Some ok \<longrightarrow> \<not> ok))"
proof -
  let ?P = "last_profile e sp"
  let ?st0 = "\<lparr>results = Map.empty, profile_var = snd (loaded e sp), files_out = fs0,
        calls = [], raised = None\<rparr>"
  have "shared_profile_inv ?P (rasters fs0) ?st0"
    by (simp add: shared_profile_inv_def loaded_profile)
  then have "shared_profile_inv ?P (rasters fs0) (run_scene e fs0 sp sel)"
    unfolding run_scene_unfold by (rule run_steps_profile_inv)
  then show ?thesis
    unfolding shared_profile_inv_def entries_process_scene
    using loaded_profile[of e sp] by blast
qed

text \<open>
  On a scene with B3 and B5 of one profile and B6 of another, NBWI, which uses B3 and
  B5, is written with the profile of B6.
\<close>

theorem C9_shared_profile_witness:
  "snd (load_band (env_with files_b3_b5_b6 write_all) ''in/s1/B3.tif'') = Some prof_a \<and>
   snd (load_band (env_with files_b3_b5_b6 write_all) ''in/s1/B5.tif'') = Some prof_a \<and>
   snd (load_band (env_with files_b3_b5_b6 write_all) ''in/s1/B6.tif'') = Some prof_b \<and>
   prof_a \<noteq> prof_b \<and>
   snd (loaded (env_with files_b3_b5_b6 write_all) ''in/s1'') = Some prof_b \<and>
   map fst (rasters (files_out
     (run_scene (env_with files_b3_b5_b6 write_all) fs_fresh ''in/s1'' [''NBWI''])))
     = [''out/s1/NBWI.tif''] \<and>
   map (fst \<circ> snd) (rasters (files_out
     (run_scene (env_with files_b3_b5_b6 write_all) fs_fresh ''in/s1'' [''NBWI''])))
     = [profile_update prof_b]"
proof -
  let ?e = "env_with files_b3_b5_b6 write_all"
  let ?R = "rasters (files_out (run_scene ?e fs_fresh ''in/s1'' [''NBWI'']))"
  have lp: "last_profile ?e ''in/s1'' = Some prof_b"
    by code_simp
  have ev: "snd (load_band ?e ''in/s1/B3.tif'') = Some prof_a \<and>
      snd (load_band ?e ''in/s1/B5.tif'') = Some prof_a \<and>
      snd (load_band ?e ''in/s1/B6.tif'') = Some prof_b \<and> prof_a \<noteq> prof_b"
    by code_simp
  have paths: "map fst ?R = [''out/s1/NBWI.tif'']"
    by code_simp
  from C9_shared_profile[of ?e "''in/s1''" fs_fresh "[''NBWI'']"] lp
  have ld: "snd (loaded ?e ''in/s1'') = Some prof_b"
    and "\<exists>new. ?R = rasters fs_fresh @ new \<and>
      (\<forall>(path, p, g) \<in> set new. \<exists>p0. Some prof_b = Some p0 \<and> p = profile_update p0)"
    by simp_all
  then have all: "\<forall>(path, p, g) \<in> set ?R. p = profile_update prof_b"
    by (auto simp: fs_fresh_def)
  from paths obtain x where x: "?R = [x]"
    by (cases ?R) auto
  with all have "map (fst \<circ> snd) ?R = [profile_update prof_b]"
    by (cases x) simp
  with ev ld paths show ?thesis by blast
qed

end
